theory Spec2Isabelle
  imports Complex_Main "HOL-Library.Char_ord" "HOL-Library.List_Lexorder"
begin

section \<open>Numbers of a float64 column\<close>

text \<open>
  A cell of a numeric pandas column is an IEEE 754 double. Finite values are kept as
  exact reals (rounding and overflow are not modelled); the three special values are
  kept apart, because the column arithmetic of pandas never raises on them: a division
  by zero gives an infinity or NaN. Zero carries no sign here: a zero divisor counts
  as \<open>+0\<close>.
\<close>

datatype float64 = Num real | PosInf | NegInf | NaN

fun fneg :: "float64 \<Rightarrow> float64" where
  "fneg (Num a) = Num (- a)"
| "fneg PosInf = NegInf"
| "fneg NegInf = PosInf"
| "fneg NaN = NaN"

fun signed_inf :: "bool \<Rightarrow> float64" where
  "signed_inf True = PosInf"
| "signed_inf False = NegInf"

fun fadd :: "float64 \<Rightarrow> float64 \<Rightarrow> float64" where
  "fadd (Num a) (Num b) = Num (a + b)"
| "fadd NaN y = NaN"
| "fadd x NaN = NaN"
| "fadd PosInf NegInf = NaN"
| "fadd NegInf PosInf = NaN"
| "fadd PosInf y = PosInf"
| "fadd NegInf y = NegInf"
| "fadd x PosInf = PosInf"
| "fadd x NegInf = NegInf"

definition fsub :: "float64 \<Rightarrow> float64 \<Rightarrow> float64" where
  "fsub x y = fadd x (fneg y)"

fun fmul :: "float64 \<Rightarrow> float64 \<Rightarrow> float64" where
  "fmul (Num a) (Num b) = Num (a * b)"
| "fmul NaN y = NaN"
| "fmul x NaN = NaN"
| "fmul (Num a) PosInf = (if a = 0 then NaN else signed_inf (0 < a))"
| "fmul (Num a) NegInf = (if a = 0 then NaN else signed_inf (a < 0))"
| "fmul PosInf (Num b) = (if b = 0 then NaN else signed_inf (0 < b))"
| "fmul NegInf (Num b) = (if b = 0 then NaN else signed_inf (b < 0))"
| "fmul PosInf PosInf = PosInf"
| "fmul NegInf NegInf = PosInf"
| "fmul PosInf NegInf = NegInf"
| "fmul NegInf PosInf = NegInf"

fun fdiv :: "float64 \<Rightarrow> float64 \<Rightarrow> float64" where
  "fdiv (Num a) (Num b) =
     (if b \<noteq> 0 then Num (a / b) else if a = 0 then NaN else signed_inf (0 < a))"
| "fdiv NaN y = NaN"
| "fdiv x NaN = NaN"
| "fdiv (Num a) y = Num 0"
| "fdiv PosInf (Num b) = signed_inf (0 \<le> b)"
| "fdiv NegInf (Num b) = signed_inf (b < 0)"
| "fdiv x y = NaN"

fun flt :: "float64 \<Rightarrow> float64 \<Rightarrow> bool" where
  "flt (Num a) (Num b) = (a < b)"
| "flt NaN y = False"
| "flt x NaN = False"
| "flt x NegInf = False"
| "flt PosInf y = False"
| "flt x y = True"


fun is_finite :: "float64 \<Rightarrow> bool" where
  "is_finite (Num a) = True"
| "is_finite x = False"

section \<open>Unit-cell frames (plot_data.py)\<close>

text \<open>
  The rows of the unit-cell frames, with the columns the live code of the script reads
  or writes. The script narrows the set of columns twice, so the row types are built
  from the narrowest outwards:
  \<^item> \<open>plot_row\<close>: the columns selected at line 211, \<open>Unit Cell\<close>, \<open>E1\<close>, \<open>E2\<close>,
    \<open>G12\<close>, \<open>Nu12\<close>;
  \<^item> \<open>kept_row\<close>: with \<open>Strut thickness [mm]\<close>, which survives the drop at line 201;
  \<^item> \<open>unit_cell_row\<close>: with \<open>ID\<close>, \<open>Infill material\<close>, \<open>Stiff volume\<close> and
    \<open>Total volume\<close>, a row of the merged frame;
  \<^item> \<open>density_column\<close>: the column \<open>Density\<close> that line 196 adds, carried as the
    extension of a row.
  A frame is the list of its rows, in index order.
\<close>

record plot_row =
  Unit_Cell :: string
  E1 :: float64
  E2 :: float64
  G12 :: float64
  Nu12 :: float64

record kept_row = plot_row +
  Strut_thickness :: float64

record unit_cell_row = kept_row +
  ID :: int
  Infill_material :: string
  Stiff_volume :: float64
  Total_volume :: float64

record density_column =
  Density :: float64

type_synonym data_frame = "unit_cell_row list"

text \<open>
  Frames are mutable objects: a variable holds a reference. The store is the list of
  all frame objects, a reference is an index into it, and a new object is appended.
\<close>

type_synonym frame_ref = nat
type_synonym frame_store = "data_frame list"

definition new_frame :: "frame_store \<Rightarrow> data_frame \<Rightarrow> frame_store \<times> frame_ref" where
  "new_frame s df = (s @ [df], length s)"

text \<open>\<open>df.copy()\<close>: a new object with the same rows.\<close>

definition copy_frame :: "frame_store \<Rightarrow> frame_ref \<Rightarrow> frame_store \<times> frame_ref" where
  "copy_frame s a = new_frame s (s ! a)"

text \<open>
  \<open>df.rename(columns={'E1':'E2','E2':'E1'}, inplace=True)\<close> on the object at \<open>a\<close>: the
  data that was labelled \<open>E1\<close> is now labelled \<open>E2\<close> and conversely.
\<close>

definition rename_E1_E2 :: "unit_cell_row \<Rightarrow> unit_cell_row" where
  "rename_E1_E2 r = r\<lparr>E1 := E2 r, E2 := E1 r\<rparr>"

definition rename_inplace :: "frame_store \<Rightarrow> frame_ref \<Rightarrow> frame_store" where
  "rename_inplace s a = s[a := map rename_E1_E2 (s ! a)]"

text \<open>
  \<open>df['Nu12'] = df['Nu12']*df['E1']/df['E2']\<close> on the object at \<open>a\<close>: the product is
  taken first, then the quotient, row by row.
\<close>

definition rescale_Nu12 :: "unit_cell_row \<Rightarrow> unit_cell_row" where
  "rescale_Nu12 r = r\<lparr>Nu12 := fdiv (fmul (Nu12 r) (E1 r)) (E2 r)\<rparr>"

definition rescale_inplace :: "frame_store \<Rightarrow> frame_ref \<Rightarrow> frame_store" where
  "rescale_inplace s a = s[a := map rescale_Nu12 (s ! a)]"

text \<open>\<open>pd.concat([a, b], ignore_index=True, axis=0)\<close>: a new object, the rows of \<open>a\<close>
  followed by the rows of \<open>b\<close>, matched by column label.\<close>

definition concat_frames :: "frame_store \<Rightarrow> frame_ref \<Rightarrow> frame_ref \<Rightarrow> frame_store \<times> frame_ref" where
  "concat_frames s a b = new_frame s (s ! a @ s ! b)"

text \<open>
  \<open>orthonormal_rotation(data_frame)\<close>, lines 50 to 75. The parameter is a reference;
  the assignment of the concatenation to the local name \<open>data_frame\<close> rebinds that
  name only, and the new reference is returned.
\<close>

definition orthonormal_rotation :: "frame_store \<Rightarrow> frame_ref \<Rightarrow> frame_store \<times> frame_ref" where
  "orthonormal_rotation s data_frame =
     (let (s1, rotated_data_frame) = copy_frame s data_frame;
          s2 = rename_inplace s1 rotated_data_frame;
          s3 = rescale_inplace s2 rotated_data_frame
      in concat_frames s3 data_frame rotated_data_frame)"

subsection \<open>Baseline materials\<close>

text \<open>
  \<open>create_baseline_materials()\<close>, lines 78 to 124: four dictionaries. The key \<open>name\<close>
  is absent from \<open>stiff\<close>; the shear modulus \<open>G\<close> is computed for the first three by the
  loop at line 122 and is the literal 0 for \<open>null_material\<close>. The values are literals of
  the script and are kept as exact reals.
\<close>

record material =
  E :: real
  rho :: real
  nu :: real
  G :: real
  name :: "string option"

definition shear_modulus :: "real \<Rightarrow> real \<Rightarrow> real" where
  "shear_modulus e n = e / (2 * (1 + n))"

definition stiff :: material where
  "stiff = \<lparr>E = 2009, rho = 1300 / 10 ^ 6, nu = 3 / 10,
     G = shear_modulus 2009 (3 / 10), name = None\<rparr>"

definition compliant_dense :: material where
  "compliant_dense = \<lparr>E = 107 / 100, rho = 970 / 10 ^ 6, nu = 49 / 100,
     G = shear_modulus (107 / 100) (49 / 100), name = Some ''dense elastomer''\<rparr>"

definition compliant_foam :: material where
  "compliant_foam = \<lparr>E = 124 / 1000, rho = 400 / 10 ^ 6, nu = 45 / 100,
     G = shear_modulus (124 / 1000) (45 / 100), name = Some ''foamed elastomer''\<rparr>"

definition null_material :: material where
  "null_material = \<lparr>E = 0, rho = 0, nu = 0, G = 0, name = Some ''none''\<rparr>"

definition create_baseline_materials :: "material \<times> material \<times> material \<times> material" where
  "create_baseline_materials = (stiff, compliant_dense, compliant_foam, null_material)"

subsection \<open>The transform stage of the script\<close>

text \<open>Line 190: \<open>data_to_plot[data_to_plot['Infill material'] == material]\<close>.\<close>

definition select_infill :: "string \<Rightarrow> unit_cell_row list \<Rightarrow> unit_cell_row list" where
  "select_infill mat df = filter (\<lambda>r. Infill_material r = mat) df"

text \<open>
  Lines 196 and 197, the density of a row:
  \<open>(Stiff volume * stiff['rho'] + (Total volume - Stiff volume) * compliant_dense['rho'])
  / Total volume\<close>. The compliant density is that of \<open>compliant_dense\<close> whatever the
  infill material is. The column arithmetic has no failing branch.
\<close>

definition density_of :: "'a unit_cell_row_scheme \<Rightarrow> float64" where
  "density_of r =
     fdiv (fadd (fmul (Stiff_volume r) (Num (rho stiff)))
                (fmul (fsub (Total_volume r) (Stiff_volume r)) (Num (rho compliant_dense))))
          (Total_volume r)"

text \<open>The assignment \<open>data_to_plot['Density'] = ...\<close>: every row gets the new column.\<close>

definition add_density :: "unit_cell_row list \<Rightarrow> density_column unit_cell_row_scheme list" where
  "add_density df = map (\<lambda>r. unit_cell_row.extend r \<lparr>Density = density_of r\<rparr>) df"

text \<open>
  Line 201: \<open>data_to_plot.drop([...], axis=1)\<close> gives a new frame without \<open>ID\<close>,
  \<open>Stiff volume\<close>, \<open>Total volume\<close> and \<open>Infill material\<close>; \<open>Density\<close> stays.
\<close>

definition drop_columns :: "density_column unit_cell_row_scheme list \<Rightarrow> density_column kept_row_scheme list" where
  "drop_columns df = map (\<lambda>r. kept_row.extend (kept_row.truncate r) (unit_cell_row.more r)) df"

text \<open>
  Line 207, the manufacturing constraint:
  \<open>df.loc[df['Strut thickness [mm]'] < 0.5, 'Unit Cell'] = 'Violated'\<close>. The boolean mask
  is computed first, then the cells of \<open>Unit Cell\<close> in the masked rows are overwritten.
\<close>

definition violated_mask :: "'a kept_row_scheme list \<Rightarrow> bool list" where
  "violated_mask df = map (\<lambda>r. flt (Strut_thickness r) (Num (1 / 2))) df"

definition apply_manufacturing_constraints :: "'a kept_row_scheme list \<Rightarrow> 'a kept_row_scheme list" where
  "apply_manufacturing_constraints df =
     map (\<lambda>(violated, r). if violated then r\<lparr>Unit_Cell := ''Violated''\<rparr> else r)
       (zip (violated_mask df) df)"

text \<open>Line 211: \<open>df[['Unit Cell','E1','E2','G12','Nu12']]\<close>, only these columns remain.\<close>

definition select_2D_properties :: "'a plot_row_scheme list \<Rightarrow> plot_row list" where
  "select_2D_properties df = map plot_row.truncate df"

text \<open>
  Lines 226 to 231: the reference material of the infill, an \<open>if\<close>/\<open>elif\<close> chain without
  \<open>else\<close>; for another name the variable stays unbound.
\<close>

definition compliant_material_of :: "string \<Rightarrow> material option" where
  "compliant_material_of mat =
     (if mat = ''foamed elastomer'' then Some compliant_foam
      else if mat = ''dense elastomer'' then Some compliant_dense
      else if mat = ''none'' then Some null_material
      else None)"

text \<open>Line 238: rows with \<open>E1\<close> and \<open>E2\<close> both above the modulus of the infill are kept.\<close>

definition delete_outliers :: "material \<Rightarrow> plot_row list \<Rightarrow> plot_row list" where
  "delete_outliers cm df = filter (\<lambda>r. flt (Num (E cm)) (E1 r) \<and> flt (Num (E cm)) (E2 r)) df"

section \<open>The main script of plot_data.py\<close>

text \<open>
  Errors are values. \<open>NameError\<close> carries the unbound name and \<open>KeyError\<close> the missing
  key; \<open>External_error\<close> stands for any failure of reading and merging the CSV files,
  a missing column included.
\<close>

datatype py_error =
    NameError string
  | KeyError string
  | ValueError string
  | TypeError
  | IndexError
  | FileNotFoundError
  | External_error string

text \<open>
  A run of the script is observed through the calls it makes on the plotting library and on standard
  output, in order. Calls on one cell of the grid of axes carry the position of the
  cell. Seaborn calls carry the frame passed as \<open>data\<close> and the column names; the hue is
  always \<open>Unit Cell\<close>. Calls that only set labels, tick visibility or the layout are
  not recorded; the library calls are taken to return normally.
\<close>

datatype axes_call =
    Kdeplot "plot_row list" string bool
  | Set_visible_False
  | Scatterplot "plot_row list" string string
  | Set_xscale_log
  | Set_yscale_log
  | Scatter_star float64 float64
  | Plot_star real real string

datatype effect =
    Axes nat nat axes_call
  | Set_size_inches nat nat
  | Show
  | Savefig string
  | Print_median string string

text \<open>
  A script is a function from the calls made so far to the calls made afterwards and the
  error raised, if any. Statements run in sequence, and an error ends the run.
\<close>

type_synonym 'e script = "'e list \<Rightarrow> 'e list \<times> py_error option"

definition skip :: "'e script" where
  "skip es = (es, None)"

definition call :: "'e \<Rightarrow> 'e script" where
  "call e es = (es @ [e], None)"

definition raise :: "py_error \<Rightarrow> 'e script" where
  "raise err es = (es, Some err)"

definition seq :: "'e script \<Rightarrow> 'e script \<Rightarrow> 'e script" where
  "seq p q es = (case p es of (es', None) \<Rightarrow> q es' | (es', Some err) \<Rightarrow> (es', Some err))"

fun block :: "'e script list \<Rightarrow> 'e script" where
  "block [] = skip"
| "block (p # ps) = seq p (block ps)"

text \<open>
  What a run depends on: whether it is started in an IPython session (only there is
  \<open>get_ipython\<close> bound, as a builtin), what reading and merging the six CSV files at
  lines 151 to 183 gives, and whether the directory \<open>output_images\<close> exists.
\<close>

record environment =
  ipython :: bool
  merged_csv :: "py_error + unit_cell_row list"
  output_images :: bool

text \<open>The names bound by the imports, the definitions and the assignments of the script.\<close>

definition module_names :: "string list" where
  "module_names =
     [''pickle'', ''os'', ''pd'', ''np'', ''mpl'', ''plt'', ''patches'', ''sns'',
      ''plotting_presets'', ''orthonormal_rotation'', ''create_baseline_materials'',
      ''stiff'', ''compliant_dense'', ''compliant_foam'', ''null_material'', ''material'',
      ''manufacturing_constraints'', ''OV_file_names'', ''DV_file_names'', ''counter'',
      ''OV_file_name'', ''DV_file_name'', ''OV_file'', ''DV_file'', ''OV_data_frame'',
      ''DV_data_frame'', ''merged_data'', ''data_to_plot'', ''plotting_data_frame'',
      ''colors'', ''compliant_material'', ''outlier_data'', ''fig'', ''axes'', ''i'',
      ''axs'', ''j'', ''ax'', ''log_flag'', ''y_log_flag'', ''x_log_flag'', ''axes_labels'',
      ''columns'', ''unit_cell_type'', ''data'']"

definition builtin_names :: "environment \<Rightarrow> string list" where
  "builtin_names env =
     [''print'', ''zip'', ''enumerate''] @ (if ipython env then [''get_ipython''] else [])"

text \<open>Evaluating a name: \<open>NameError\<close> when it is bound nowhere.\<close>

definition lookup_name :: "environment \<Rightarrow> string \<Rightarrow> effect script" where
  "lookup_name env n =
     (if n \<in> set module_names \<or> n \<in> set (builtin_names env) then skip else raise (NameError n))"

text \<open>\<open>plotting_presets()\<close> of plot_data.py, lines 23 to 47: it starts with a call of
  \<open>get_ipython\<close>; the settings that follow are not recorded.\<close>

definition script_plotting_presets :: "environment \<Rightarrow> effect script" where
  "script_plotting_presets env = lookup_name env ''get_ipython''"

definition material :: string where
  "material = ''foamed elastomer''"

text \<open>\<open>plotting_data_frame.columns\<close> after line 211, and \<open>columns\<close> of line 329.\<close>

definition plotting_columns :: "string list" where
  "plotting_columns = [''Unit Cell'', ''E1'', ''E2'', ''G12'', ''Nu12'']"

definition columns :: "string list" where
  "columns = [''E1'', ''E2'', ''G12'', ''Nu12'']"

definition column_of :: "string \<Rightarrow> 'a plot_row_scheme \<Rightarrow> float64" where
  "column_of c r =
     (if c = ''E1'' then E1 r else if c = ''E2'' then E2 r
      else if c = ''G12'' then G12 r else Nu12 r)"

text \<open>
  One cell of the scatter matrix, lines 248 to 315: the body of the two loops for the
  row \<open>i\<close> and the column \<open>j\<close> of the grid.
\<close>

definition scatter_matrix_cell :: "plot_row list \<Rightarrow> nat \<Rightarrow> nat \<Rightarrow> effect script" where
  "scatter_matrix_cell df i j =
     (if i = j then
        (let log_flag = (if plotting_columns ! (i + 1) = ''Nu12'' then False else True)
         in call (Axes i j (Kdeplot df (plotting_columns ! (i + 1)) log_flag)))
      else if i < j then
        call (Axes i j Set_visible_False)
      else
        (let y_log_flag = (if plotting_columns ! (i + 1) = ''Nu12'' then False else True);
             x_log_flag = (if plotting_columns ! (j + 1) = ''Nu12'' then False else True)
         in block
              [call (Axes i j (Scatterplot df (plotting_columns ! (j + 1)) (plotting_columns ! (i + 1)))),
               if x_log_flag = True then call (Axes i j Set_xscale_log) else skip,
               if y_log_flag = True then call (Axes i j Set_yscale_log) else skip]))"

text \<open>The two loops over the 4 by 4 grid of \<open>plt.subplots(4,4,sharex='col')\<close>, line 246.\<close>

definition scatter_matrix :: "plot_row list \<Rightarrow> effect script" where
  "scatter_matrix df =
     block (map (\<lambda>i. block (map (\<lambda>j. scatter_matrix_cell df i j) [0..<4])) [0..<4])"

text \<open>
  Lines 331 to 353: on every cell off the diagonal the unit cell \<open>Re-entrant\<close> with
  \<open>ID\<close> 152 is drawn as a star, read from \<open>data_to_plot\<close>; \<open>.iloc[0]\<close> raises
  \<open>IndexError\<close> when there is no such row.
\<close>

definition highlighted_rows :: "'a unit_cell_row_scheme list \<Rightarrow> 'a unit_cell_row_scheme list" where
  "highlighted_rows df = filter (\<lambda>r. Unit_Cell r = ''Re-entrant'' \<and> ID r = 152) df"

definition highlight_cell :: "'a unit_cell_row_scheme list \<Rightarrow> nat \<Rightarrow> nat \<Rightarrow> effect script" where
  "highlight_cell df i j =
     (if i \<noteq> j then
        (case highlighted_rows df of
           [] \<Rightarrow> raise IndexError
         | r # _ \<Rightarrow> call (Axes i j (Scatter_star (column_of (columns ! j) r) (column_of (columns ! i) r))))
      else skip)"

definition highlight :: "'a unit_cell_row_scheme list \<Rightarrow> effect script" where
  "highlight df =
     block (map (\<lambda>i. block (map (\<lambda>j. highlight_cell df i j) [0..<4])) [0..<4])"

text \<open>Lines 356 to 375: the two constituent materials as stars on six cells.\<close>

definition reference_markers :: "material \<Rightarrow> effect script" where
  "reference_markers cm =
     block
       [call (Axes 1 0 (Plot_star (E stiff) (E stiff) ''gray'')),
        call (Axes 1 0 (Plot_star (E cm) (E cm) ''cyan'')),
        call (Axes 2 0 (Plot_star (E stiff) (G stiff) ''gray'')),
        call (Axes 2 0 (Plot_star (E cm) (G cm) ''cyan'')),
        call (Axes 3 0 (Plot_star (E stiff) (nu stiff) ''gray'')),
        call (Axes 3 0 (Plot_star (E cm) (nu cm) ''cyan'')),
        call (Axes 2 1 (Plot_star (E stiff) (G stiff) ''gray'')),
        call (Axes 2 1 (Plot_star (E cm) (G cm) ''cyan'')),
        call (Axes 3 1 (Plot_star (E stiff) (nu stiff) ''gray'')),
        call (Axes 3 1 (Plot_star (E cm) (nu cm) ''cyan'')),
        call (Axes 3 2 (Plot_star (G stiff) (nu stiff) ''gray'')),
        call (Axes 3 2 (Plot_star (G cm) (nu cm) ''cyan''))]"

text \<open>\<open>plt.savefig(os.path.join(os.getcwd(), "output_images", file))\<close>.\<close>

definition savefig :: "environment \<Rightarrow> string \<Rightarrow> effect script" where
  "savefig env file = (if output_images env then call (Savefig file) else raise FileNotFoundError)"

text \<open>Lines 412 to 419: the medians of the four columns, for two unit-cell types.\<close>

definition print_medians :: "effect script" where
  "print_medians =
     block (concat (map (\<lambda>unit_cell_type.
       map (\<lambda>c. call (Print_median unit_cell_type c)) columns) [''Lattice'', ''Re-entrant'']))"

text \<open>
  Lines 185 to 238: the frames the script derives from the merged frame. The rotation
  runs on a store holding the merged frame alone.
\<close>

definition rotated_merged_data :: "unit_cell_row list \<Rightarrow> unit_cell_row list" where
  "rotated_merged_data merged = (case orthonormal_rotation [merged] 0 of (s, out) \<Rightarrow> s ! out)"

definition data_to_plot :: "unit_cell_row list \<Rightarrow> density_column unit_cell_row_scheme list" where
  "data_to_plot merged = add_density (select_infill material (rotated_merged_data merged))"

definition plotting_data_frame :: "material \<Rightarrow> unit_cell_row list \<Rightarrow> plot_row list" where
  "plotting_data_frame cm merged =
     delete_outliers cm
       (select_2D_properties
          (apply_manufacturing_constraints (drop_columns (data_to_plot merged))))"

text \<open>The script under \<open>if __name__ == "__main__"\<close>, lines 127 to 419.\<close>

definition main :: "environment \<Rightarrow> effect script" where
  "main env =
     seq (script_plotting_presets env)
       (case merged_csv env of
          Inl err \<Rightarrow> raise err
        | Inr merged \<Rightarrow>
            (case compliant_material_of material of
               None \<Rightarrow> raise (NameError ''compliant_material'')
             | Some cm \<Rightarrow>
                 block
                   [scatter_matrix (plotting_data_frame cm merged),
                    highlight (data_to_plot merged),
                    reference_markers cm,
                    call (Set_size_inches 10 6),
                    call Show,
                    savefig env (material @ ''unit_cell.svg''),
                    lookup_name env ''BREAK'',
                    call (Set_size_inches 6 6),
                    savefig env (material @ ''unit_cell.png''),
                    print_medians]))"

text \<open>A row used to run the definitions on concrete data.\<close>

definition example_row :: unit_cell_row where
  "example_row = \<lparr>Unit_Cell = ''Chiral'', E1 = Num 2, E2 = Num 1, G12 = Num 1, Nu12 = Num 1,
     Strut_thickness = Num 1, ID = 1, Infill_material = ''foamed elastomer'',
     Stiff_volume = Num 1, Total_volume = Num 2\<rparr>"

subsection \<open>Observing a run\<close>

text \<open>The calls made on the cell \<open>(i, j)\<close> of the grid, in order.\<close>

fun calls_on :: "nat \<Rightarrow> nat \<Rightarrow> effect list \<Rightarrow> axes_call list" where
  "calls_on i j [] = []"
| "calls_on i j (Axes a b c # es) = (if a = i \<and> b = j then c # calls_on i j es else calls_on i j es)"
| "calls_on i j (e # es) = calls_on i j es"

text \<open>A script that only adds calls satisfying \<open>P\<close> to those made before it.\<close>

definition emits :: "('e \<Rightarrow> bool) \<Rightarrow> 'e script \<Rightarrow> bool" where
  "emits P p = (\<forall>es es' r. p es = (es', r) \<longrightarrow> (\<exists>new. es' = es @ new \<and> list_all P new))"



text \<open>Everything the script does before it saves the SVG file, lines 127 to 390.\<close>

definition before_save :: "environment \<Rightarrow> effect script" where
  "before_save env =
     seq (script_plotting_presets env)
       (case merged_csv env of
          Inl err \<Rightarrow> raise err
        | Inr merged \<Rightarrow>
            block
              [scatter_matrix (plotting_data_frame compliant_foam merged),
               highlight (data_to_plot merged),
               reference_markers compliant_foam,
               call (Set_size_inches 10 6),
               call Show])"

definition example_environment :: environment where
  "example_environment =
     \<lparr>ipython = True,
      merged_csv = Inr [example_row\<lparr>Unit_Cell := ''Re-entrant'', ID := 152\<rparr>],
      output_images = True\<rparr>"

section \<open>plot_utilities.py\<close>

subsection \<open>The raise statement\<close>

text \<open>
  What a \<open>raise\<close> statement is given: an exception class called with a message, or some
  other object. The source writes \<open>raise(ValueError, '...')\<close>, whose operand is a tuple.
  Python 3 (the source has parameter annotations) raises \<open>TypeError\<close> for an operand
  that is neither an exception class nor an exception instance.
\<close>

datatype py_object =
    Exception_instance string string
  | Exception_class string
  | Str string
  | Tuple "py_object list"

fun error_of_class :: "string \<Rightarrow> string \<Rightarrow> py_error" where
  "error_of_class c msg =
     (if c = ''ValueError'' then ValueError msg
      else if c = ''TypeError'' then TypeError
      else if c = ''KeyError'' then KeyError msg
      else if c = ''NameError'' then NameError msg
      else if c = ''IndexError'' then IndexError
      else if c = ''FileNotFoundError'' then FileNotFoundError
      else External_error c)"

fun py_raise :: "py_object \<Rightarrow> py_error" where
  "py_raise (Exception_instance c msg) = error_of_class c msg"
| "py_raise (Exception_class c) = error_of_class c []"
| "py_raise obj = TypeError"

subsection \<open>plotting_presets\<close>

text \<open>
  \<open>str.lower()\<close> on the bytes of the string: the ASCII capitals are lowered. No other
  character lowers to a letter of \<open>publication\<close> or \<open>presentation\<close>, so the two
  comparisons of \<open>plotting_presets\<close> are decided as in Python.
\<close>

definition lower_char :: "char \<Rightarrow> char" where
  "lower_char c =
     (let n = (of_char c :: nat) in if 65 \<le> n \<and> n \<le> 90 then char_of (n + 32) else c)"

definition lower :: "string \<Rightarrow> string" where
  "lower cs = map lower_char cs"

text \<open>
  \<open>plotting_presets(figure_type)\<close>, lines 25 to 72, on the settings of matplotlib
  (\<open>rcParams\<close>, with the backend). The flag says whether \<open>SPY_PYTHONPATH\<close> is in the
  environment, where the line magic selects the Qt backend first.
\<close>

type_synonym rcParams = "string \<rightharpoonup> string"

definition plotting_presets :: "bool \<Rightarrow> string \<Rightarrow> rcParams \<Rightarrow> py_error + rcParams" where
  "plotting_presets spyder figure_type rc =
     (let rc1 = (if spyder then rc(''backend'' \<mapsto> ''qt'') else rc) in
      if lower figure_type = ''publication'' then
        Inr (rc1(''font.family'' \<mapsto> ''serif'', ''font.serif'' \<mapsto> ''Times New Roman'',
                 ''font.size'' \<mapsto> ''10'', ''text.usetex'' \<mapsto> ''True'',
                 ''svg.fonttype'' \<mapsto> ''none'', ''lines.markersize'' \<mapsto> ''10''))
      else if lower figure_type = ''presentation'' then
        Inr (rc1(''font.family'' \<mapsto> ''sans-serif'', ''font.sans-serif'' \<mapsto> ''Arial'',
                 ''font.size'' \<mapsto> ''18'', ''text.usetex'' \<mapsto> ''False'',
                 ''svg.fonttype'' \<mapsto> ''none'', ''lines.markersize'' \<mapsto> ''10''))
      else
        Inl (py_raise (Tuple [Exception_class ''ValueError'',
               Str ''Options for plotting_presets are publication or presentation''])))"

subsection \<open>draw_plot\<close>

text \<open>
  The material frame: the names of its numeric columns, and its rows. A row has its
  \<open>Category\<close> (absent for a missing value) and a float64 in every column of the frame.
\<close>

record material_row =
  Category :: "string option"
  quantity :: "string \<Rightarrow> float64"

record material_data =
  Columns :: "string list"
  Rows :: "material_row list"

text \<open>\<open>frame[c]\<close>: the column, or \<open>KeyError\<close> when the frame has no such column.\<close>

definition get_column :: "string list \<Rightarrow> material_row list \<Rightarrow> string \<Rightarrow> py_error + float64 list" where
  "get_column cols rs c =
     (if c \<in> set cols then Inr (map (\<lambda>r. quantity r c) rs) else Inl (KeyError c))"

text \<open>
  \<open>data.groupby('Category')\<close>: one group for each category present, in sorted order of
  the keys, each with its rows in frame order; rows without a category are in no group.
\<close>

definition groupby_Category :: "material_row list \<Rightarrow> (string \<times> material_row list) list" where
  "groupby_Category rs =
     map (\<lambda>c. (c, filter (\<lambda>r. Category r = Some c) rs))
       (sort (remdups (List.map_filter Category rs)))"

text \<open>
  The calls on the external routines \<open>draw_ellipses\<close> and \<open>draw_hull\<close> and on
  \<open>ax.scatter\<close>, with the data and the colour they are given. The hull is always asked
  for with scale 1.1, padding \<open>scale\<close>, 1000 interpolation points and cubic
  interpolation. The routines are taken to return normally.
\<close>

datatype plot_call =
    Draw_ellipses "float64 list" "float64 list" string
  | Ax_scatter "float64 list" "float64 list" string
  | Draw_hull "(float64 \<times> float64) list" string

text \<open>\<open>material_colors[category]\<close> as the colour of a call.\<close>

definition with_color :: "(string \<rightharpoonup> string) \<Rightarrow> string \<Rightarrow> (string \<Rightarrow> plot_call) \<Rightarrow> plot_call script" where
  "with_color material_colors category f =
     (case material_colors category of
        None \<Rightarrow> raise (KeyError category)
      | Some c \<Rightarrow> call (f c))"

text \<open>The body of the loop of \<open>draw_plot\<close> for one group, lines 113 to 162.\<close>

definition draw_group :: "string list \<Rightarrow> string \<Rightarrow> string \<Rightarrow> (string \<rightharpoonup> string) \<Rightarrow> string \<Rightarrow>
    string \<Rightarrow> material_row list \<Rightarrow> plot_call script" where
  "draw_group cols x_axis_quantity y_axis_quantity material_colors data_type category material_data =
     (if data_type = ''ranges'' then
        (case get_column cols material_data (y_axis_quantity @ '' low'') of
           Inl err \<Rightarrow> raise err
         | Inr y_low \<Rightarrow>
        (case get_column cols material_data (x_axis_quantity @ '' low'') of
           Inl err \<Rightarrow> raise err
         | Inr x_low \<Rightarrow>
        (case get_column cols material_data (y_axis_quantity @ '' high'') of
           Inl err \<Rightarrow> raise err
         | Inr y_high \<Rightarrow>
        (case get_column cols material_data (x_axis_quantity @ '' high'') of
           Inl err \<Rightarrow> raise err
         | Inr x_high \<Rightarrow>
             seq (block (map (\<lambda>i. with_color material_colors category
                                 (Draw_ellipses [x_low ! i, x_high ! i] [y_low ! i, y_high ! i]))
                          [0..<length material_data]))
                 (with_color material_colors category
                    (Draw_hull (zip (x_low @ x_high) (y_low @ y_high))))))))
      else if data_type = ''values'' then
        (case get_column cols material_data x_axis_quantity of
           Inl err \<Rightarrow> raise err
         | Inr xs \<Rightarrow>
        (case get_column cols material_data y_axis_quantity of
           Inl err \<Rightarrow> raise err
         | Inr ys \<Rightarrow>
             seq (with_color material_colors category (Ax_scatter xs ys))
                 (with_color material_colors category (Draw_hull (zip xs ys)))))
      else
        raise (py_raise (Tuple [Exception_class ''ValueError'',
                 Str ''Only options for data_type in draw_plot are ranges or values''])))"

text \<open>\<open>draw_plot(data, x_axis_quantity, y_axis_quantity, ax, material_colors, data_type)\<close>.\<close>

definition draw_plot :: "material_data \<Rightarrow> string \<Rightarrow> string \<Rightarrow> (string \<rightharpoonup> string) \<Rightarrow> string \<Rightarrow>
    plot_call script" where
  "draw_plot data x_axis_quantity y_axis_quantity material_colors data_type =
     block (map (\<lambda>(category, material_data).
                   draw_group (Columns data) x_axis_quantity y_axis_quantity material_colors
                     data_type category material_data)
              (groupby_Category (Rows data)))"







subsection \<open>draw_guideline\<close>

text \<open>
  The dictionary \<open>guideline\<close>; \<open>x_lim\<close> is the pair of its two entries. The numbers are
  arguments of the caller and are kept as exact reals.
\<close>

record guideline =
  power :: real
  x_lim :: "real \<times> real"
  y_intercept :: real
  string :: string
  string_position :: "real \<times> real"








section \<open>Observations on the unit-cell pipeline\<close>

subsection \<open>What reaches the plot\<close>

text \<open>A row with its two volumes overwritten: what is left when the volumes are ignored.\<close>

definition erase_volumes :: "unit_cell_row \<Rightarrow> unit_cell_row" where
  "erase_volumes r = r\<lparr>Stiff_volume := Num 0, Total_volume := Num 0\<rparr>"

text \<open>What a row of the frame of line 211 is made from.\<close>

definition plotted_row :: "unit_cell_row \<Rightarrow> plot_row" where
  "plotted_row r = plot_row.truncate
     (if flt (Strut_thickness r) (Num (1 / 2)) then r\<lparr>Unit_Cell := ''Violated''\<rparr> else r)"

text \<open>The columns of \<open>data_to_plot\<close> that the highlighted star reads.\<close>

definition highlight_key :: "'a unit_cell_row_scheme \<Rightarrow> string \<times> int \<times> float64 \<times> float64 \<times> float64 \<times> float64" where
  "highlight_key r = (Unit_Cell r, ID r, E1 r, E2 r, G12 r, Nu12 r)"

text \<open>The numbers a call draws: the columns named in a seaborn call, the coordinates of a
  marker.\<close>

fun plotted_values :: "effect \<Rightarrow> float64 list" where
  "plotted_values (Axes i j (Kdeplot df x lf)) = map (column_of x) df"
| "plotted_values (Axes i j (Scatterplot df x y)) = map (column_of x) df @ map (column_of y) df"
| "plotted_values (Axes i j (Scatter_star x y)) = [x, y]"
| "plotted_values (Axes i j (Plot_star x y c)) = [Num x, Num y]"
| "plotted_values e = []"

text \<open>The highlighted unit cell with a \<open>Total volume\<close> of zero.\<close>

definition zero_volume_row :: unit_cell_row where
  "zero_volume_row = example_row\<lparr>Unit_Cell := ''Re-entrant'', ID := 152, Total_volume := Num 0\<rparr>"


section \<open>Properties of the float64 arithmetic\<close>

lemma signed_inf_cases: "signed_inf b = (if b then PosInf else NegInf)"
  by (cases b) simp_all


section \<open>The orthonormal rotation\<close>

lemma orthonormal_rotation_eq:
  assumes "a < length s"
  shows "orthonormal_rotation s a =
    (s @ [map (rescale_Nu12 \<circ> rename_E1_E2) (s ! a)]
       @ [s ! a @ map (rescale_Nu12 \<circ> rename_E1_E2) (s ! a)], Suc (length s))"
  using assms
  by (simp add: orthonormal_rotation_def copy_frame_def new_frame_def rename_inplace_def
      rescale_inplace_def concat_frames_def nth_append Let_def)

lemma rotated_row:
  "rescale_Nu12 (rename_E1_E2 r) =
     r\<lparr>E1 := E2 r, E2 := E1 r, Nu12 := fdiv (fmul (Nu12 r) (E2 r)) (E1 r)\<rparr>"
  by (simp add: rescale_Nu12_def rename_E1_E2_def)



text \<open>
  Claim C10. \<open>orthonormal_rotation\<close> does not mutate its argument: the object at the
  caller's reference holds the same frame after the call, as does every object that
  existed before it; the rename and the rescaling act on the copy, and the frame
  returned is a new object.
\<close>

theorem orthonormal_rotation_keeps_argument:
  assumes "data_frame < length s"
      and "orthonormal_rotation s data_frame = (s', out)"
  shows "s' ! data_frame = s ! data_frame \<and> take (length s) s' = s \<and>
         length s \<le> out \<and> out < length s'"
  using assms orthonormal_rotation_eq [of data_frame s]
  by (auto simp: nth_append)

theorem orthonormal_rotation_keeps_argument_witness:
  "(0::nat) < length [[example_row]] \<and>
   orthonormal_rotation [[example_row]] 0 =
     ([[example_row],
       [example_row\<lparr>E1 := Num 1, E2 := Num 2, Nu12 := Num (1 / 2)\<rparr>],
       [example_row, example_row\<lparr>E1 := Num 1, E2 := Num 2, Nu12 := Num (1 / 2)\<rparr>]], 2) \<and>
   [[example_row],
       [example_row\<lparr>E1 := Num 1, E2 := Num 2, Nu12 := Num (1 / 2)\<rparr>],
       [example_row, example_row\<lparr>E1 := Num 1, E2 := Num 2, Nu12 := Num (1 / 2)\<rparr>]] ! 0
     = [example_row]"
proof -
  let ?rot = "example_row\<lparr>E1 := Num 1, E2 := Num 2, Nu12 := Num (1 / 2)\<rparr>"
  have h1: "(0::nat) < length [[example_row]]" by simp
  have h2: "orthonormal_rotation [[example_row]] 0 =
     ([[example_row], [?rot], [example_row, ?rot]], 2)"
    by (simp add: orthonormal_rotation_eq rotated_row example_row_def)
  from orthonormal_rotation_keeps_argument [OF h1 h2] h1 h2
  show ?thesis by simp
qed

section \<open>The density and the manufacturing constraint\<close>


lemma Density_add_density:
  "i < length df \<Longrightarrow> Density (unit_cell_row.more (add_density df ! i)) = density_of (df ! i)"
  by (simp add: add_density_def unit_cell_row.defs)



lemma apply_manufacturing_constraints_nth:
  "i < length df \<Longrightarrow> apply_manufacturing_constraints df ! i =
     (if flt (Strut_thickness (df ! i)) (Num (1 / 2)) then (df ! i)\<lparr>Unit_Cell := ''Violated''\<rparr>
      else df ! i)"
  by (simp add: apply_manufacturing_constraints_def violated_mask_def)

lemma apply_manufacturing_constraints_map:
  "apply_manufacturing_constraints df =
     map (\<lambda>r. if flt (Strut_thickness r) (Num (1 / 2)) then r\<lparr>Unit_Cell := ''Violated''\<rparr> else r) df"
  by (rule nth_equalityI)
     (simp_all add: apply_manufacturing_constraints_def violated_mask_def)

text \<open>
  Claim C3. The manufacturing-constraint step keeps the number and the order of the
  rows. A row whose \<open>Strut thickness [mm]\<close> is strictly less than 0.5 gets the category
  \<open>Violated\<close>; every other row keeps its category; and putting the old category back
  gives the old row, so no other field of any row changes.
\<close>

theorem manufacturing_constraint_relabels:
  "length (apply_manufacturing_constraints df) = length df \<and>
   (\<forall>i < length df.
      (flt (Strut_thickness (df ! i)) (Num (1 / 2)) \<longrightarrow>
         Unit_Cell (apply_manufacturing_constraints df ! i) = ''Violated'') \<and>
      (\<not> flt (Strut_thickness (df ! i)) (Num (1 / 2)) \<longrightarrow>
         Unit_Cell (apply_manufacturing_constraints df ! i) = Unit_Cell (df ! i)) \<and>
      (apply_manufacturing_constraints df ! i)\<lparr>Unit_Cell := Unit_Cell (df ! i)\<rparr> = df ! i)"
  by (simp add: apply_manufacturing_constraints_map)

theorem manufacturing_constraint_relabels_witness:
  "(0::nat) < length [example_row\<lparr>Strut_thickness := Num (1 / 4)\<rparr>, example_row] \<and>
   flt (Strut_thickness ([example_row\<lparr>Strut_thickness := Num (1 / 4)\<rparr>, example_row] ! 0)) (Num (1 / 2)) \<and>
   Unit_Cell (apply_manufacturing_constraints
      [example_row\<lparr>Strut_thickness := Num (1 / 4)\<rparr>, example_row] ! 0) = ''Violated'' \<and>
   (1::nat) < length [example_row\<lparr>Strut_thickness := Num (1 / 4)\<rparr>, example_row] \<and>
   \<not> flt (Strut_thickness ([example_row\<lparr>Strut_thickness := Num (1 / 4)\<rparr>, example_row] ! 1)) (Num (1 / 2)) \<and>
   Unit_Cell (apply_manufacturing_constraints
      [example_row\<lparr>Strut_thickness := Num (1 / 4)\<rparr>, example_row] ! 1) = ''Chiral''"
proof -
  let ?df = "[example_row\<lparr>Strut_thickness := Num (1 / 4)\<rparr>, example_row]"
  have h0: "(0::nat) < length ?df" and h1: "(1::nat) < length ?df" by simp_all
  have t0: "flt (Strut_thickness (?df ! 0)) (Num (1 / 2))" by (simp add: example_row_def)
  have t1: "\<not> flt (Strut_thickness (?df ! 1)) (Num (1 / 2))" by (simp add: example_row_def)
  have c1: "Unit_Cell (?df ! 1) = ''Chiral''" by (simp add: example_row_def)
  from manufacturing_constraint_relabels [of ?df]
  have a: "\<forall>i < length ?df.
      (flt (Strut_thickness (?df ! i)) (Num (1 / 2)) \<longrightarrow>
         Unit_Cell (apply_manufacturing_constraints ?df ! i) = ''Violated'') \<and>
      (\<not> flt (Strut_thickness (?df ! i)) (Num (1 / 2)) \<longrightarrow>
         Unit_Cell (apply_manufacturing_constraints ?df ! i) = Unit_Cell (?df ! i)) \<and>
      (apply_manufacturing_constraints ?df ! i)\<lparr>Unit_Cell := Unit_Cell (?df ! i)\<rparr> = ?df ! i"
    by (rule conjunct2)
  from a h0 t0 have r0: "Unit_Cell (apply_manufacturing_constraints ?df ! 0) = ''Violated''"
    by blast
  from a h1 t1 have "Unit_Cell (apply_manufacturing_constraints ?df ! 1) = Unit_Cell (?df ! 1)"
    by blast
  with c1 have r1: "Unit_Cell (apply_manufacturing_constraints ?df ! 1) = ''Chiral''" by simp
  from h0 h1 t0 t1 r0 r1 show ?thesis by blast
qed

section \<open>Runs of the main script\<close>

lemma upt_4: "[0..<4] = [0, 1, 2, 3]"
  by (simp add: upt_rec)

lemma less_4_cases: "i < 4 \<Longrightarrow> i = 0 \<or> i = 1 \<or> i = 2 \<or> i = (3::nat)"
  by arith






lemma emits_if: "emits P p \<Longrightarrow> emits P q \<Longrightarrow> emits P (if b then p else q)"
  by simp







lemma seq_assoc: "seq (seq p q) r = seq p (seq q r)"
  by (rule ext) (simp add: seq_def split: prod.split option.split)

lemma seq_raise: "seq (raise err) q = raise err"
  by (rule ext) (simp add: seq_def raise_def)

lemma seq_skip: "seq skip p = p"
  by (rule ext) (simp add: seq_def skip_def)

lemma BREAK_unbound: "lookup_name env ''BREAK'' = raise (NameError ''BREAK'')"
  by (simp add: lookup_name_def module_names_def builtin_names_def)

lemma compliant_material_foam: "compliant_material_of material = Some compliant_foam"
  by (simp add: compliant_material_of_def material_def)

lemma main_eq:
  "main env = seq (before_save env)
     (seq (savefig env (material @ ''unit_cell.svg'')) (raise (NameError ''BREAK'')))"
proof (cases "merged_csv env")
  case (Inl err)
  then show ?thesis
    by (simp add: main_def before_save_def seq_assoc seq_raise)
next
  case (Inr merged)
  then show ?thesis
    by (simp add: main_def before_save_def compliant_material_foam BREAK_unbound
        seq_assoc seq_raise seq_skip)
qed

















lemma scatter_matrix_run:
  "scatter_matrix df [] =
    ([Axes 0 0 (Kdeplot df ''E1'' True), Axes 0 1 Set_visible_False,
      Axes 0 2 Set_visible_False, Axes 0 3 Set_visible_False,
      Axes 1 0 (Scatterplot df ''E1'' ''E2''), Axes 1 0 Set_xscale_log,
      Axes 1 0 Set_yscale_log, Axes 1 1 (Kdeplot df ''E2'' True),
      Axes 1 2 Set_visible_False, Axes 1 3 Set_visible_False,
      Axes 2 0 (Scatterplot df ''E1'' ''G12''), Axes 2 0 Set_xscale_log,
      Axes 2 0 Set_yscale_log, Axes 2 1 (Scatterplot df ''E2'' ''G12''),
      Axes 2 1 Set_xscale_log, Axes 2 1 Set_yscale_log,
      Axes 2 2 (Kdeplot df ''G12'' True), Axes 2 3 Set_visible_False,
      Axes 3 0 (Scatterplot df ''E1'' ''Nu12''), Axes 3 0 Set_xscale_log,
      Axes 3 1 (Scatterplot df ''E2'' ''Nu12''), Axes 3 1 Set_xscale_log,
      Axes 3 2 (Scatterplot df ''G12'' ''Nu12''), Axes 3 2 Set_xscale_log,
      Axes 3 3 (Kdeplot df ''Nu12'' False)], None)"
  by (simp add: scatter_matrix_def upt_4 scatter_matrix_cell_def plotting_columns_def
      seq_def call_def skip_def Let_def)

text \<open>
  Claim C7. In the loop over the 4 by 4 grid, a diagonal cell gets one kernel density
  estimate (per category, by the hue) of its column, with a logarithmic scale exactly
  when the column is not \<open>Nu12\<close>; a cell above the diagonal is hidden and nothing else
  is done on it; a cell below the diagonal gets one scatter plot (per category) of
  column \<open>j\<close> against column \<open>i\<close>, and its x axis, respectively y axis, is set to
  logarithmic exactly when the column plotted on it is not \<open>Nu12\<close>.
\<close>

theorem scatter_matrix_cells:
  "snd (scatter_matrix df []) = None \<and>
   (\<forall>i<4. \<forall>j<4.
      calls_on i j (fst (scatter_matrix df [])) =
        (if i = j then [Kdeplot df (columns ! i) (columns ! i \<noteq> ''Nu12'')]
         else if i < j then [Set_visible_False]
         else [Scatterplot df (columns ! j) (columns ! i)]
              @ (if columns ! j \<noteq> ''Nu12'' then [Set_xscale_log] else [])
              @ (if columns ! i \<noteq> ''Nu12'' then [Set_yscale_log] else [])))"
proof (intro conjI allI impI)
  show "snd (scatter_matrix df []) = None"
    by (simp add: scatter_matrix_run)
next
  fix i j :: nat
  assume "i < 4" "j < 4"
  then have "i = 0 \<or> i = 1 \<or> i = 2 \<or> i = 3" "j = 0 \<or> j = 1 \<or> j = 2 \<or> j = 3"
    by arith+
  then show "calls_on i j (fst (scatter_matrix df [])) =
        (if i = j then [Kdeplot df (columns ! i) (columns ! i \<noteq> ''Nu12'')]
         else if i < j then [Set_visible_False]
         else [Scatterplot df (columns ! j) (columns ! i)]
              @ (if columns ! j \<noteq> ''Nu12'' then [Set_xscale_log] else [])
              @ (if columns ! i \<noteq> ''Nu12'' then [Set_yscale_log] else []))"
    by (elim disjE) (simp_all add: scatter_matrix_run columns_def)
qed

theorem scatter_matrix_cells_witness:
  "(2::nat) < 4 \<and> (1::nat) < 4 \<and>
   calls_on 2 1 (fst (scatter_matrix [] [])) =
     [Scatterplot [] ''E2'' ''G12'', Set_xscale_log, Set_yscale_log] \<and>
   calls_on 3 3 (fst (scatter_matrix [] [])) = [Kdeplot [] ''Nu12'' False] \<and>
   calls_on 3 2 (fst (scatter_matrix [] [])) = [Scatterplot [] ''G12'' ''Nu12'', Set_xscale_log] \<and>
   calls_on 0 3 (fst (scatter_matrix [] [])) = [Set_visible_False]"
  using scatter_matrix_cells [of "[]"] by (simp add: columns_def)

section \<open>The density does not reach the plot\<close>

lemma density_of_zero_volume:
  "Total_volume r = Num 0 \<Longrightarrow> density_of r \<in> {PosInf, NegInf, NaN}"
  unfolding density_of_def
  by (cases "fadd (fmul (Stiff_volume r) (Num (rho stiff)))
                (fmul (fsub (Total_volume r) (Stiff_volume r)) (Num (rho compliant_dense)))")
     (auto simp: signed_inf_cases)

lemma rotated_merged_data_eq:
  "rotated_merged_data m = m @ map (\<lambda>r. rescale_Nu12 (rename_E1_E2 r)) m"
  by (simp add: rotated_merged_data_def orthonormal_rotation_eq comp_def)

lemma rotated_erase:
  "rotated_merged_data (map erase_volumes m) = map erase_volumes (rotated_merged_data m)"
  by (simp add: rotated_merged_data_eq erase_volumes_def rescale_Nu12_def rename_E1_E2_def)

lemma select_infill_erase:
  "select_infill mat (map erase_volumes df) = map erase_volumes (select_infill mat df)"
  by (simp add: select_infill_def filter_map comp_def erase_volumes_def)

lemma plotted_row_pointwise:
  "plot_row.truncate
     ((\<lambda>r. if flt (Strut_thickness r) (Num (1 / 2)) then r\<lparr>Unit_Cell := ''Violated''\<rparr> else r)
        ((\<lambda>r. kept_row.extend (kept_row.truncate r) (unit_cell_row.more r))
           (unit_cell_row.extend x \<lparr>Density = density_of x\<rparr>))) = plotted_row x"
  by (cases "flt (Strut_thickness x) (Num (1 / 2))")
     (simp_all add: plotted_row_def plot_row.defs kept_row.defs unit_cell_row.defs)

lemma plotting_data_frame_eq:
  "plotting_data_frame cm m =
     delete_outliers cm (map plotted_row (select_infill material (rotated_merged_data m)))"
  unfolding plotting_data_frame_def data_to_plot_def select_2D_properties_def
      apply_manufacturing_constraints_map drop_columns_def add_density_def map_map comp_def
  by (simp only: plotted_row_pointwise)

lemma plotted_row_erase: "plotted_row (erase_volumes r) = plotted_row r"
  by (simp add: plotted_row_def erase_volumes_def plot_row.defs)

lemma plotting_data_frame_erase:
  "plotting_data_frame cm (map erase_volumes m) = plotting_data_frame cm m"
  by (simp add: plotting_data_frame_eq rotated_erase select_infill_erase comp_def plotted_row_erase)


lemma highlighted_rows_key:
  assumes "map highlight_key df1 = map highlight_key df2"
  shows "map highlight_key (highlighted_rows df1) = map highlight_key (highlighted_rows df2)"
proof -
  from assms have "length df1 = length df2" by (rule map_eq_imp_length_eq)
  then show ?thesis using assms
    by (induction df1 df2 rule: list_induct2) (auto simp: highlighted_rows_def highlight_key_def)
qed

lemma highlight_cell_key:
  assumes "map highlight_key df1 = map highlight_key df2"
  shows "highlight_cell df1 i j = highlight_cell df2 i j"
proof -
  from highlighted_rows_key [OF assms]
  have k: "map highlight_key (highlighted_rows df1) = map highlight_key (highlighted_rows df2)" .
  show ?thesis
  proof (cases "highlighted_rows df1")
    case Nil
    with k have "highlighted_rows df2 = []" by simp
    with Nil show ?thesis by (simp add: highlight_cell_def)
  next
    case (Cons r rs)
    with k obtain r' rs' where c2: "highlighted_rows df2 = r' # rs'" and "highlight_key r = highlight_key r'"
      by (cases "highlighted_rows df2") auto
    then have "column_of c r = column_of c r'" for c
      by (simp add: highlight_key_def column_of_def)
    with Cons c2 show ?thesis by (simp add: highlight_cell_def)
  qed
qed

lemma highlight_key_cong:
  assumes "map highlight_key df1 = map highlight_key df2"
  shows "highlight df1 = highlight df2"
proof -
  have "highlight_cell df1 = highlight_cell df2"
    by (intro ext) (simp only: highlight_cell_key [OF assms])
  then show ?thesis by (simp only: highlight_def)
qed


lemma data_to_plot_key:
  "map highlight_key (data_to_plot (map erase_volumes m)) = map highlight_key (data_to_plot m)"
  by (simp add: data_to_plot_def rotated_erase select_infill_erase add_density_def comp_def
      highlight_key_def erase_volumes_def unit_cell_row.defs)

lemma before_save_erase:
  "before_save (env\<lparr>merged_csv := Inr (map erase_volumes m)\<rparr>) =
   before_save (env\<lparr>merged_csv := Inr m\<rparr>)"
  by (simp add: before_save_def plotting_data_frame_erase highlight_key_cong [OF data_to_plot_key]
      script_plotting_presets_def lookup_name_def builtin_names_def)

lemma main_erase_volumes:
  "main (env\<lparr>merged_csv := Inr (map erase_volumes m)\<rparr>) = main (env\<lparr>merged_csv := Inr m\<rparr>)"
  by (simp add: main_eq before_save_erase savefig_def)

lemma main_ignores_volumes:
  assumes "map erase_volumes m1 = map erase_volumes m2"
  shows "main (env\<lparr>merged_csv := Inr m1\<rparr>) = main (env\<lparr>merged_csv := Inr m2\<rparr>)"
proof -
  have "main (env\<lparr>merged_csv := Inr m1\<rparr>) = main (env\<lparr>merged_csv := Inr (map erase_volumes m1)\<rparr>)"
    by (rule main_erase_volumes [symmetric])
  also have "\<dots> = main (env\<lparr>merged_csv := Inr (map erase_volumes m2)\<rparr>)"
    by (simp only: assms)
  also have "\<dots> = main (env\<lparr>merged_csv := Inr m2\<rparr>)"
    by (rule main_erase_volumes)
  finally show ?thesis .
qed



text \<open>
  Claim C8, as amended. When the \<open>Total volume\<close> of a row is zero, the density
  computation raises nothing: the division gives an infinity or NaN, which is stored in
  the \<open>Density\<close> field of that row, and the frame keeps all its rows. The value is not
  propagated to the plot: two merged frames that differ in their volumes only give the
  same run, call for call (line 211 keeps \<open>Unit Cell\<close>, \<open>E1\<close>, \<open>E2\<close>, \<open>G12\<close> and
  \<open>Nu12\<close> only, and the star reads these columns too).
\<close>

theorem zero_volume_density_stored_not_plotted:
  "(i < length df \<and> Total_volume (df ! i) = Num 0 \<longrightarrow>
      Density (unit_cell_row.more (add_density df ! i)) \<in> {PosInf, NegInf, NaN}) \<and>
   length (add_density df) = length df \<and>
   (map erase_volumes m1 = map erase_volumes m2 \<longrightarrow>
      main (env\<lparr>merged_csv := Inr m1\<rparr>) = main (env\<lparr>merged_csv := Inr m2\<rparr>))"
proof (intro conjI impI)
  assume "i < length df \<and> Total_volume (df ! i) = Num 0"
  then show "Density (unit_cell_row.more (add_density df ! i)) \<in> {PosInf, NegInf, NaN}"
    using density_of_zero_volume [of "df ! i"] by (simp add: Density_add_density)
next
  show "length (add_density df) = length df"
    by (simp add: add_density_def)
next
  assume "map erase_volumes m1 = map erase_volumes m2"
  then show "main (env\<lparr>merged_csv := Inr m1\<rparr>) = main (env\<lparr>merged_csv := Inr m2\<rparr>)"
    by (rule main_ignores_volumes)
qed

lemma zero_volume_erased:
  "map erase_volumes [zero_volume_row] =
   map erase_volumes [example_row\<lparr>Unit_Cell := ''Re-entrant'', ID := 152\<rparr>]"
  by (simp add: erase_volumes_def zero_volume_row_def)

lemma zero_volume_density: "density_of zero_volume_row = PosInf"
  by (simp add: density_of_def zero_volume_row_def example_row_def fsub_def stiff_def
      compliant_dense_def)

theorem zero_volume_density_stored_not_plotted_witness:
  "(0::nat) < length [zero_volume_row] \<and> Total_volume ([zero_volume_row] ! 0) = Num 0 \<and>
   Density (unit_cell_row.more (add_density [zero_volume_row] ! 0)) \<in> {PosInf, NegInf, NaN} \<and>
   map erase_volumes [zero_volume_row] =
     map erase_volumes [example_row\<lparr>Unit_Cell := ''Re-entrant'', ID := 152\<rparr>] \<and>
   main (example_environment\<lparr>merged_csv := Inr [zero_volume_row]\<rparr>) =
     main (example_environment\<lparr>merged_csv :=
        Inr [example_row\<lparr>Unit_Cell := ''Re-entrant'', ID := 152\<rparr>]\<rparr>)"
proof -
  have h1: "(0::nat) < length [zero_volume_row] \<and> Total_volume ([zero_volume_row] ! 0) = Num 0"
    by (simp add: zero_volume_row_def)
  note h2 = zero_volume_erased
  from zero_volume_density_stored_not_plotted
         [of 0 "[zero_volume_row]" "[zero_volume_row]"
             "[example_row\<lparr>Unit_Cell := ''Re-entrant'', ID := 152\<rparr>]" example_environment]
       h1 h2
  show ?thesis by blast
qed

lemma example_plotting_data_frame:
  "plotting_data_frame compliant_foam [example_row\<lparr>Unit_Cell := ''Re-entrant'', ID := 152\<rparr>] =
     [\<lparr>Unit_Cell = ''Re-entrant'', E1 = Num 2, E2 = Num 1, G12 = Num 1, Nu12 = Num 1\<rparr>,
      \<lparr>Unit_Cell = ''Re-entrant'', E1 = Num 1, E2 = Num 2, G12 = Num 1, Nu12 = Num (1 / 2)\<rparr>]"
  by (simp add: plotting_data_frame_eq rotated_merged_data_eq select_infill_def material_def
      example_row_def rescale_Nu12_def rename_E1_E2_def plotted_row_def plot_row.defs
      delete_outliers_def compliant_foam_def)


text \<open>
  Claim C8 as stated fails: for the highlighted unit cell with a \<open>Total volume\<close> of zero
  the stored density is \<open>+Inf\<close>, and every number drawn by the run is finite.
\<close>

theorem zero_volume_density_counterexample:
  "Density (unit_cell_row.more (data_to_plot [zero_volume_row] ! 0)) = PosInf \<and>
   list_all is_finite (concat (map plotted_values
     (fst (main (example_environment\<lparr>merged_csv := Inr [zero_volume_row]\<rparr>) []))))"
  by code_simp

section \<open>plotting_presets and draw_guideline\<close>

lemma lower_examples:
  "lower ''poster'' = ''poster''"
  "lower ''Publication'' = ''publication''"
  "lower ''PRESENTATION'' = ''presentation''"
  by code_simp+

lemma plotting_presets_unrecognised:
  assumes "lower figure_type \<noteq> ''publication''" and "lower figure_type \<noteq> ''presentation''"
  shows "plotting_presets spyder figure_type rc = Inl TypeError"
  using assms by (simp add: plotting_presets_def Let_def)

lemma plotting_presets_recognised:
  assumes "lower figure_type = ''publication'' \<or> lower figure_type = ''presentation''"
  shows "\<not> isl (plotting_presets spyder figure_type rc)"
  using assms by (auto simp: plotting_presets_def Let_def)

text \<open>
  Claim C6 at the selector \<open>poster\<close>: the call fails, but with \<open>TypeError\<close> and not with
  the \<open>ValueError\<close> the source names, because the statement raises a tuple. The two
  recognised selectors, in any case of the letters, complete without error.
\<close>

theorem plotting_presets_raises_TypeError:
  "plotting_presets False ''poster'' Map.empty = Inl TypeError \<and>
   plotting_presets False ''poster'' Map.empty \<noteq>
     Inl (ValueError ''Options for plotting_presets are publication or presentation'') \<and>
   \<not> isl (plotting_presets False ''Publication'' Map.empty) \<and>
   \<not> isl (plotting_presets False ''PRESENTATION'' Map.empty)"
  by (simp add: plotting_presets_def lower_examples)





section \<open>draw_plot\<close>


lemma block_raise_first: "block (raise err # ps) es = (es, Some err)"
  by (simp add: seq_def raise_def)

lemma map_nth_fun: "map (\<lambda>i. f (xs ! i)) [0..<length xs] = map f xs"
  by (rule nth_equalityI) simp_all




lemma groupby_Category_keys:
  "map fst (groupby_Category rs) = sort (remdups (List.map_filter Category rs))"
  by (simp add: groupby_Category_def comp_def)













end
